theory Spec2Isabelle
  imports Main
begin

section \<open>Data model\<close>

text \<open>
  The monolith keeps four JSON files (products, orders, payments, notifications), each read
  and written whole by every operation. A file is modelled as the list it holds, in file
  order, and an operation takes the lists it reads and returns the lists it writes.
  Identifiers and quantities are integers. Reading and writing the files is assumed to
  succeed.
\<close>

text \<open>
  Prices, totals and amounts are JavaScript numbers, that is doubles, and the services add and
  multiply them with rounding. Their type is the parameter \<open>'n\<close> of the model, and the three
  things the services do with them are arguments of the model, of which nothing is assumed:
  the number \<^verbatim>\<open>0\<close> a total starts from, the sum \<^verbatim>\<open>a + b\<close> of two numbers, and the product
  \<^verbatim>\<open>precio * cantidad\<close> of a price and a whole quantity. No law of arithmetic is available for
  them, so what is proved holds for the doubles of the program as for exact numbers.
\<close>

record 'n number =
  num_zero :: 'n
  num_plus :: "'n \<Rightarrow> 'n \<Rightarrow> 'n"
  num_times :: "'n \<Rightarrow> int \<Rightarrow> 'n"

text \<open>A product of \<^verbatim>\<open>products.json\<close>. The field \<^verbatim>\<open>id\<close> is named \<open>id_prod\<close>.\<close>

record 'n product =
  id_prod :: int
  nombre :: string
  precio :: 'n
  stock_disponible :: int
  activo :: bool

text \<open>The body of a product update: every field is optional and overrides the stored one.\<close>

record 'n product_data =
  d_id :: "int option"
  d_nombre :: "string option"
  d_precio :: "'n option"
  d_stock_disponible :: "int option"
  d_activo :: "bool option"

text \<open>A requested item, and the line stored in the order with the unit price captured.\<close>

record order_item =
  producto_id :: int
  cantidad :: int

record 'n order_line = order_item +
  precio_unitario :: 'n

text \<open>
  The request body of an order creation and the stored order share their first fields; the
  request carries items, the stored order carries lines.
\<close>

record 'i order_data =
  cliente_id :: int
  productos :: "'i list"
  metodoPago :: string
  direccion :: string
  telefono :: string

record 'n order = "'n order_line order_data" +
  numeroPedido :: int
  total :: 'n
  estadoPedido :: string
  estadoPago :: string
  fecha :: string

text \<open>A payment of \<^verbatim>\<open>payments.json\<close>.\<close>

record 'n payment =
  id_pago :: int
  pedido_id :: int
  transaccion_id :: string
  respuesta :: string
  estado :: string
  monto :: 'n
  pasarela :: string
  fecha_pago :: string

record 'n store =
  products :: "'n product list"
  orders :: "'n order list"
  payments :: "'n payment list"

text \<open>The failure results of the services, one constructor for each message.\<close>

datatype error =
    Producto_no_encontrado
  | Producto_id_no_encontrado int
  | Stock_insuficiente
  | Stock_insuficiente_para string int
  | Orden_no_encontrada
  | Estado_no_valido
  | Estado_de_pago_no_valido
  | No_se_puede_cancelar string
  | Pasarela_no_valida
  | Orden_ya_pagada
  | Pago_rechazado string
  | Error_al_procesar_pago

section \<open>Configuration\<close>

text \<open>
  The constants of the configuration module that the services read: the names of the payment
  gateways and of the fulfillment and payment statuses. A status is stored as its name.
\<close>

definition PAYMENT_GATEWAYS :: "string list" where
  "PAYMENT_GATEWAYS = [''paypal'', ''stripe'']"

definition ORDER_PENDING :: string where "ORDER_PENDING = ''PENDING''"
definition ORDER_PROCESSING :: string where "ORDER_PROCESSING = ''PROCESSING''"
definition ORDER_SHIPPED :: string where "ORDER_SHIPPED = ''SHIPPED''"
definition ORDER_DELIVERED :: string where "ORDER_DELIVERED = ''DELIVERED''"
definition ORDER_CANCELLED :: string where "ORDER_CANCELLED = ''CANCELLED''"

definition ORDER_STATUSES :: "string list" where
  "ORDER_STATUSES =
     [ORDER_PENDING, ORDER_PROCESSING, ORDER_SHIPPED, ORDER_DELIVERED, ORDER_CANCELLED]"

definition PAYMENT_PENDING :: string where "PAYMENT_PENDING = ''PENDING''"
definition PAYMENT_COMPLETED :: string where "PAYMENT_COMPLETED = ''COMPLETED''"
definition PAYMENT_FAILED :: string where "PAYMENT_FAILED = ''FAILED''"
definition PAYMENT_REFUNDED :: string where "PAYMENT_REFUNDED = ''REFUNDED''"

definition PAYMENT_STATUSES :: "string list" where
  "PAYMENT_STATUSES = [PAYMENT_PENDING, PAYMENT_COMPLETED, PAYMENT_FAILED, PAYMENT_REFUNDED]"

section \<open>Products service\<close>

text \<open>\<^verbatim>\<open>Array.prototype.findIndex\<close>: the first index whose element satisfies the test.\<close>

fun findIndex :: "('a \<Rightarrow> bool) \<Rightarrow> 'a list \<Rightarrow> nat option" where
  "findIndex P [] = None"
| "findIndex P (x # xs) = (if P x then Some 0 else map_option Suc (findIndex P xs))"

definition getProductById :: "int \<Rightarrow> 'n product list \<Rightarrow> error + 'n product" where
  "getProductById productId ps =
     (case find (\<lambda>p. id_prod p = productId) ps of
        None \<Rightarrow> Inl Producto_no_encontrado
      | Some product \<Rightarrow> Inr product)"

text \<open>The object spread \<^verbatim>\<open>{ ...product, ...productData }\<close>.\<close>

definition spread :: "'n product \<Rightarrow> 'n product_data \<Rightarrow> 'n product" where
  "spread p d =
     \<lparr> id_prod = (case d_id d of None \<Rightarrow> id_prod p | Some v \<Rightarrow> v),
       nombre = (case d_nombre d of None \<Rightarrow> nombre p | Some v \<Rightarrow> v),
       precio = (case d_precio d of None \<Rightarrow> precio p | Some v \<Rightarrow> v),
       stock_disponible =
         (case d_stock_disponible d of None \<Rightarrow> stock_disponible p | Some v \<Rightarrow> v),
       activo = (case d_activo d of None \<Rightarrow> activo p | Some v \<Rightarrow> v) \<rparr>"

definition updateProduct ::
  "int \<Rightarrow> 'n product_data \<Rightarrow> 'n product list \<Rightarrow> (error + 'n product) \<times> 'n product list" where
  "updateProduct productId productData ps =
     (case findIndex (\<lambda>p. id_prod p = productId) ps of
        None \<Rightarrow> (Inl Producto_no_encontrado, ps)
      | Some productIndex \<Rightarrow>
          let ps' = ps[productIndex := spread (ps ! productIndex) productData]
          in (Inr (ps' ! productIndex), ps'))"

text \<open>
  \<^verbatim>\<open>updateStock(productId, quantity)\<close>: a negative quantity reserves, a positive one releases.
  The result carries the new stock.
\<close>

definition updateStock :: "int \<Rightarrow> int \<Rightarrow> 'n product list \<Rightarrow> (error + int) \<times> 'n product list" where
  "updateStock productId quantity ps =
     (case findIndex (\<lambda>p. id_prod p = productId) ps of
        None \<Rightarrow> (Inl Producto_no_encontrado, ps)
      | Some productIndex \<Rightarrow>
          if quantity < 0 \<and> stock_disponible (ps ! productIndex) < \<bar>quantity\<bar>
          then (Inl Stock_insuficiente, ps)
          else
            let ps' = ps[productIndex :=
                  (ps ! productIndex)\<lparr> stock_disponible :=
                     stock_disponible (ps ! productIndex) + quantity \<rparr>]
            in (Inr (stock_disponible (ps' ! productIndex)), ps'))"

text \<open>The stock the services see for a product id: that of the first product with the id.\<close>

definition stockOf :: "'n product list \<Rightarrow> int \<Rightarrow> int option" where
  "stockOf ps productId = map_option stock_disponible (find (\<lambda>p. id_prod p = productId) ps)"

section \<open>Orders service\<close>

definition getOrderById :: "int \<Rightarrow> 'n order list \<Rightarrow> error + 'n order" where
  "getOrderById orderId os =
     (case find (\<lambda>ord. numeroPedido ord = orderId) os of
        None \<Rightarrow> Inl Orden_no_encontrada
      | Some order \<Rightarrow> Inr order)"

text \<open>
  The loop of \<^verbatim>\<open>createOrder\<close> over the requested items, with its accumulators \<open>tot\<close>
  (the variable \<^verbatim>\<open>total\<close>) and \<open>lines\<close> (the array \<^verbatim>\<open>productos\<close>). Each round looks the product up,
  checks its stock, reserves the quantity at once and records the line. A failing round
  returns from \<^verbatim>\<open>createOrder\<close> with the products file as the earlier rounds left it.
\<close>

fun createOrder_loop ::
  "'n number \<Rightarrow> order_item list \<Rightarrow> 'n \<Rightarrow> 'n order_line list \<Rightarrow> 'n product list \<Rightarrow>
     (error + 'n \<times> 'n order_line list) \<times> 'n product list" where
  "createOrder_loop ar [] tot lines ps = (Inr (tot, lines), ps)"
| "createOrder_loop ar (item # items) tot lines ps =
     (case getProductById (producto_id item) ps of
        Inl e \<Rightarrow> (Inl (Producto_id_no_encontrado (producto_id item)), ps)
      | Inr producto \<Rightarrow>
          if stock_disponible producto < cantidad item
          then (Inl (Stock_insuficiente_para (nombre producto) (stock_disponible producto)), ps)
          else
            (case updateStock (id_prod producto) (- cantidad item) ps of
               (Inl e, ps') \<Rightarrow> (Inl e, ps')
             | (Inr currentStock, ps') \<Rightarrow>
                 createOrder_loop ar items
                   (num_plus ar tot (num_times ar (precio producto) (cantidad item)))
                   (lines @ [\<lparr> producto_id = id_prod producto, cantidad = cantidad item,
                               precio_unitario = precio producto \<rparr>])
                   ps'))"

text \<open>
  The next identifier of a file: one more than the greatest identifier in it, or the given
  first identifier when the file is empty.
\<close>

definition nextId :: "int \<Rightarrow> int list \<Rightarrow> int" where
  "nextId first ids = (case ids of [] \<Rightarrow> first | i # is \<Rightarrow> fold max is i + 1)"

definition createOrder ::
  "'n number \<Rightarrow> order_item order_data \<Rightarrow> string \<Rightarrow> 'n store \<Rightarrow> (error + 'n order) \<times> 'n store" where
  "createOrder ar orderData now s =
     (case createOrder_loop ar (productos orderData) (num_zero ar) [] (products s) of
        (Inl e, ps') \<Rightarrow> (Inl e, s\<lparr> products := ps' \<rparr>)
      | (Inr (tot, lines), ps') \<Rightarrow>
          let newOrder =
            \<lparr> cliente_id = cliente_id orderData,
              productos = lines,
              metodoPago = metodoPago orderData,
              direccion = direccion orderData,
              telefono = telefono orderData,
              numeroPedido = nextId 1001 (map numeroPedido (orders s)),
              total = tot,
              estadoPedido = ORDER_PENDING,
              estadoPago = PAYMENT_PENDING,
              fecha = now \<rparr>
          in (Inr newOrder, s\<lparr> products := ps', orders := orders s @ [newOrder] \<rparr>))"


definition updatePaymentStatus ::
  "int \<Rightarrow> string \<Rightarrow> 'n order list \<Rightarrow> (error + 'n order) \<times> 'n order list" where
  "updatePaymentStatus orderId paymentStatus os =
     (case findIndex (\<lambda>ord. numeroPedido ord = orderId) os of
        None \<Rightarrow> (Inl Orden_no_encontrada, os)
      | Some orderIndex \<Rightarrow>
          if paymentStatus \<notin> set PAYMENT_STATUSES then (Inl Estado_de_pago_no_valido, os)
          else
            let paid = (os ! orderIndex)\<lparr> estadoPago := paymentStatus \<rparr>;
                advanced =
                  (if paymentStatus = PAYMENT_COMPLETED \<and> estadoPedido paid = ORDER_PENDING
                   then paid\<lparr> estadoPedido := ORDER_PROCESSING \<rparr>
                   else paid);
                os' = os[orderIndex := advanced]
            in (Inr (os' ! orderIndex), os'))"

text \<open>
  The stock restoring loop of \<^verbatim>\<open>cancelOrder\<close>: the result of each \<^verbatim>\<open>updateStock\<close> is
  dropped, so a failing release is skipped and the loop goes on.
\<close>

fun restoreStock :: "'n order_line list \<Rightarrow> 'n product list \<Rightarrow> 'n product list" where
  "restoreStock [] ps = ps"
| "restoreStock (item # items) ps =
     restoreStock items (snd (updateStock (producto_id item) (cantidad item) ps))"

definition cancelOrder :: "int \<Rightarrow> 'n store \<Rightarrow> (error + 'n order) \<times> 'n store" where
  "cancelOrder orderId s =
     (case findIndex (\<lambda>ord. numeroPedido ord = orderId) (orders s) of
        None \<Rightarrow> (Inl Orden_no_encontrada, s)
      | Some orderIndex \<Rightarrow>
          let order = orders s ! orderIndex in
          if estadoPedido order \<in> set [ORDER_SHIPPED, ORDER_DELIVERED]
          then (Inl (No_se_puede_cancelar (estadoPedido order)), s)
          else
            let ps' = restoreStock (productos order) (products s);
                os' = (orders s)[orderIndex := order\<lparr> estadoPedido := ORDER_CANCELLED \<rparr>]
            in (Inr (os' ! orderIndex), s\<lparr> products := ps', orders := os' \<rparr>))"

section \<open>Payments service\<close>

text \<open>
  The two simulated processors. The random draw of a charge (\<^verbatim>\<open>Math.random() > 0.1\<close>) and
  the clock are arguments of the model. A charge answers with a transaction identifier and a
  message, or with the message of the decline.
\<close>

datatype processor = PayPalPaymentProcessor | StripePaymentProcessor

text \<open>\<^verbatim>\<open>PaymentProcessorFactory.createPaymentProcessor\<close>; \<open>None\<close> is the thrown error.\<close>

definition createPaymentProcessor :: "string \<Rightarrow> processor option" where
  "createPaymentProcessor gateway =
     (if gateway = ''paypal'' then Some PayPalPaymentProcessor
      else if gateway = ''stripe'' then Some StripePaymentProcessor
      else None)"

fun charge :: "processor \<Rightarrow> bool \<Rightarrow> string \<Rightarrow> error + string \<times> string" where
  "charge PayPalPaymentProcessor isSuccessful ms =
     (if isSuccessful
      then Inr (''PP-'' @ ms, ''Pago procesado exitosamente a traves de PayPal'')
      else Inl (Pago_rechazado
             ''Error al procesar el pago con PayPal. Por favor, intente nuevamente.''))"
| "charge StripePaymentProcessor isSuccessful ms =
     (if isSuccessful
      then Inr (''ST-'' @ ms, ''Pago procesado exitosamente a traves de Stripe'')
      else Inl (Pago_rechazado
             ''Error al procesar el pago con Stripe. Por favor, intente nuevamente.''))"

definition processPayment ::
  "int \<Rightarrow> string \<Rightarrow> bool \<Rightarrow> string \<Rightarrow> string \<Rightarrow> 'n store \<Rightarrow> (error + 'n payment) \<times> 'n store" where
  "processPayment orderId gateway isSuccessful ms now s =
     (if gateway \<notin> set PAYMENT_GATEWAYS then (Inl Pasarela_no_valida, s)
      else
        (case getOrderById orderId (orders s) of
           Inl e \<Rightarrow> (Inl e, s)
         | Inr order \<Rightarrow>
             if estadoPago order = PAYMENT_COMPLETED then (Inl Orden_ya_pagada, s)
             else
               (case createPaymentProcessor gateway of
                  None \<Rightarrow> (Inl Error_al_procesar_pago, s)
                | Some paymentProcessor \<Rightarrow>
                    (case charge paymentProcessor isSuccessful ms of
                       Inl e \<Rightarrow> (Inl e, s)
                     | Inr (transactionId, message) \<Rightarrow>
                         let os' = snd (updatePaymentStatus orderId PAYMENT_COMPLETED (orders s));
                             newPayment =
                               \<lparr> id_pago = nextId 2001 (map id_pago (payments s)),
                                 pedido_id = orderId,
                                 transaccion_id = transactionId,
                                 respuesta = message,
                                 estado = PAYMENT_COMPLETED,
                                 monto = total order,
                                 pasarela = gateway,
                                 fecha_pago = now \<rparr>
                         in (Inr newPayment,
                             s\<lparr> orders := os', payments := payments s @ [newPayment] \<rparr>)))))"

section \<open>Payments service, networked variant\<close>

text \<open>
  The payments service that runs on its own keeps the payments in a table of its own and
  reaches the orders through requests to the orders service. What the request for the order
  answers is an argument: the order, or nothing when the request fails (the variable
  \<^verbatim>\<open>order\<close> is then undefined and the processor throws on it, which the service reports as
  \<^verbatim>\<open>Error al procesar pago\<close>). The number of the new payment is given by the database. The
  result carries the payments table and the payment status updates sent to the orders
  service. The guard against a second payment looks for a COMPLETED payment of the order in
  the table; the payment status of the order is not read.
\<close>

definition processPayment_net ::
  "int \<Rightarrow> string \<Rightarrow> 'n order option \<Rightarrow> bool \<Rightarrow> string \<Rightarrow> string \<Rightarrow> int \<Rightarrow> 'n payment list \<Rightarrow>
     (error + 'n payment) \<times> 'n payment list \<times> (int \<times> string) list" where
  "processPayment_net orderId gateway fetched isSuccessful ms now newId ps =
     (if gateway \<notin> set PAYMENT_GATEWAYS then (Inl Pasarela_no_valida, ps, [])
      else
        (case find (\<lambda>p. pedido_id p = orderId \<and> estado p = PAYMENT_COMPLETED) ps of
           Some existingPayment \<Rightarrow> (Inl Orden_ya_pagada, ps, [])
         | None \<Rightarrow>
             (case createPaymentProcessor gateway of
                None \<Rightarrow> (Inl Error_al_procesar_pago, ps, [])
              | Some paymentProcessor \<Rightarrow>
                  (case fetched of
                     None \<Rightarrow> (Inl Error_al_procesar_pago, ps, [])
                   | Some order \<Rightarrow>
                       (case charge paymentProcessor isSuccessful ms of
                          Inl e \<Rightarrow> (Inl e, ps, [])
                        | Inr (transactionId, message) \<Rightarrow>
                            let newPayment =
                              \<lparr> id_pago = newId,
                                pedido_id = orderId,
                                transaccion_id = transactionId,
                                respuesta = message,
                                estado = PAYMENT_COMPLETED,
                                monto = total order,
                                pasarela = gateway,
                                fecha_pago = now \<rparr>
                            in (Inr newPayment, ps @ [newPayment],
                                [(orderId, PAYMENT_COMPLETED)]))))))"

section \<open>Orders service, SQLite variant\<close>

text \<open>
  The second implementation of \<^verbatim>\<open>createOrder\<close> keeps the orders in a database and opens a
  transaction, but still calls the products service above, which works on its JSON file and
  takes no transaction: a rollback restores the orders table and not the products file.
  Its first loop validates every item and writes nothing; its second loop reserves the stock
  of the lines. The number of the new order is given by the database and is an argument here.
\<close>

fun createOrder_sql_validate ::
  "'n number \<Rightarrow> order_item list \<Rightarrow> 'n \<Rightarrow> 'n order_line list \<Rightarrow> 'n product list \<Rightarrow> error + 'n \<times> 'n order_line list" where
  "createOrder_sql_validate ar [] tot lines ps = Inr (tot, lines)"
| "createOrder_sql_validate ar (item # items) tot lines ps =
     (case getProductById (producto_id item) ps of
        Inl e \<Rightarrow> Inl (Producto_id_no_encontrado (producto_id item))
      | Inr producto \<Rightarrow>
          if stock_disponible producto < cantidad item
          then Inl (Stock_insuficiente_para (nombre producto) (stock_disponible producto))
          else createOrder_sql_validate ar items
                 (num_plus ar tot (num_times ar (precio producto) (cantidad item)))
                 (lines @ [\<lparr> producto_id = id_prod producto, cantidad = cantidad item,
                             precio_unitario = precio producto \<rparr>])
                 ps)"

fun createOrder_sql_reserve ::
  "'n order_line list \<Rightarrow> 'n product list \<Rightarrow> (error + unit) \<times> 'n product list" where
  "createOrder_sql_reserve [] ps = (Inr (), ps)"
| "createOrder_sql_reserve (item # items) ps =
     (case updateStock (producto_id item) (- cantidad item) ps of
        (Inl e, ps') \<Rightarrow> (Inl e, ps')
      | (Inr currentStock, ps') \<Rightarrow> createOrder_sql_reserve items ps')"

definition createOrder_sql ::
  "'n number \<Rightarrow> order_item order_data \<Rightarrow> int \<Rightarrow> string \<Rightarrow> 'n store \<Rightarrow> (error + 'n order) \<times> 'n store" where
  "createOrder_sql ar orderData newId now s =
     (case createOrder_sql_validate ar (productos orderData) (num_zero ar) [] (products s) of
        Inl e \<Rightarrow> (Inl e, s)
      | Inr (tot, lines) \<Rightarrow>
          (case createOrder_sql_reserve lines (products s) of
             (Inl e, ps') \<Rightarrow> (Inl e, s\<lparr> products := ps' \<rparr>)
           | (Inr u, ps') \<Rightarrow>
               let newOrder =
                 \<lparr> cliente_id = cliente_id orderData,
                   productos = lines,
                   metodoPago = metodoPago orderData,
                   direccion = direccion orderData,
                   telefono = telefono orderData,
                   numeroPedido = newId,
                   total = tot,
                   estadoPedido = ORDER_PENDING,
                   estadoPago = PAYMENT_PENDING,
                   fecha = now \<rparr>
               in (Inr newOrder, s\<lparr> products := ps', orders := orders s @ [newOrder] \<rparr>)))"

text \<open>
  \<^verbatim>\<open>cancelOrder\<close> of the variant checks the result of every release and stops at the first
  failure, where the loop of the monolith goes on.
\<close>

fun cancelOrder_sql_restore ::
  "'n order_line list \<Rightarrow> 'n product list \<Rightarrow> (error + unit) \<times> 'n product list" where
  "cancelOrder_sql_restore [] ps = (Inr (), ps)"
| "cancelOrder_sql_restore (item # items) ps =
     (case updateStock (producto_id item) (cantidad item) ps of
        (Inl e, ps') \<Rightarrow> (Inl e, ps')
      | (Inr currentStock, ps') \<Rightarrow> cancelOrder_sql_restore items ps')"

definition cancelOrder_sql :: "int \<Rightarrow> 'n store \<Rightarrow> (error + 'n order) \<times> 'n store" where
  "cancelOrder_sql orderId s =
     (case findIndex (\<lambda>ord. numeroPedido ord = orderId) (orders s) of
        None \<Rightarrow> (Inl Orden_no_encontrada, s)
      | Some orderIndex \<Rightarrow>
          let order = orders s ! orderIndex in
          if estadoPedido order \<in> set [ORDER_SHIPPED, ORDER_DELIVERED]
          then (Inl (No_se_puede_cancelar (estadoPedido order)), s)
          else
            (case cancelOrder_sql_restore (productos order) (products s) of
               (Inl e, ps') \<Rightarrow> (Inl e, s\<lparr> products := ps' \<rparr>)
             | (Inr u, ps') \<Rightarrow>
                 let os' = (orders s)[orderIndex := order\<lparr> estadoPedido := ORDER_CANCELLED \<rparr>]
                 in (Inr (os' ! orderIndex), s\<lparr> products := ps', orders := os' \<rparr>)))"

section \<open>Quantities used to state the properties\<close>

text \<open>The quantity of a product over all the lines of an order.\<close>

definition quantityOf :: "'n order_line list \<Rightarrow> int \<Rightarrow> int" where
  "quantityOf lines productId =
     sum_list (map cantidad (filter (\<lambda>l. producto_id l = productId) lines))"

text \<open>Calling \<^verbatim>\<open>cancelOrder\<close> on the same order \<open>n\<close> times in a row.\<close>

fun cancelTimes :: "nat \<Rightarrow> int \<Rightarrow> 'n store \<Rightarrow> 'n store" where
  "cancelTimes 0 orderId s = s"
| "cancelTimes (Suc n) orderId s = cancelTimes n orderId (snd (cancelOrder orderId s))"

text \<open>The price the services see for a product id.\<close>

definition priceOf :: "'n product list \<Rightarrow> int \<Rightarrow> 'n option" where
  "priceOf ps productId = map_option precio (find (\<lambda>p. id_prod p = productId) ps)"

text \<open>
  The sum over the lines of an order of unit price times quantity, as the program computes a
  sum: starting from \<^verbatim>\<open>0\<close> and adding the amount of each line in turn, in the order of the
  lines, with the program's own product and sum.
\<close>

definition sumLines :: "'n number \<Rightarrow> 'n order_line list \<Rightarrow> 'n" where
  "sumLines ar lines =
     foldl (\<lambda>acc l. num_plus ar acc (num_times ar (precio_unitario l) (cantidad l)))
       (num_zero ar) lines"

text \<open>
  A call of the products service run against the store: it reads and writes the products
  file and nothing else.
\<close>

definition onProducts :: "('n product list \<Rightarrow> 'r \<times> 'n product list) \<Rightarrow> 'n store \<Rightarrow> 'r \<times> 'n store" where
  "onProducts call s = (case call (products s) of (r, ps') \<Rightarrow> (r, s\<lparr> products := ps' \<rparr>))"










section \<open>Example data\<close>

text \<open>
  The examples have whole prices, held as integers with the exact sum and product: on such
  small whole numbers the arithmetic of doubles is exact as well.
\<close>

definition demo_number :: "int number" where
  "demo_number = \<lparr> num_zero = 0, num_plus = (+), num_times = (*) \<rparr>"

text \<open>A products file with product A (ten in stock, price 5) and product B (five in stock).\<close>

definition demo_products :: "int product list" where
  "demo_products =
     [\<lparr> id_prod = 1, nombre = ''A'', precio = 5, stock_disponible = 10, activo = True \<rparr>,
      \<lparr> id_prod = 2, nombre = ''B'', precio = 7, stock_disponible = 5, activo = True \<rparr>]"

text \<open>
  An orders file with one order, number 1001, of three units of product A, in a given
  fulfillment status.
\<close>

definition demo_order :: "string \<Rightarrow> int order" where
  "demo_order st =
     \<lparr> cliente_id = 7,
       productos = [\<lparr> producto_id = 1, cantidad = 3, precio_unitario = 5 \<rparr>],
       metodoPago = ''paypal'', direccion = ''Calle 1'', telefono = ''555'',
       numeroPedido = 1001, total = 15, estadoPedido = st, estadoPago = PAYMENT_PENDING,
       fecha = ''2024-01-01'' \<rparr>"

definition demo_store :: "string \<Rightarrow> int store" where
  "demo_store st = \<lparr> products = demo_products, orders = [demo_order st], payments = [] \<rparr>"




text \<open>
  A store with no order yet; a request for three units of A and two of B, the order it
  creates and the store afterwards; a request that asks for more of B than there is; and a
  product update that changes a price.
\<close>

definition demo_request :: "order_item order_data" where
  "demo_request =
     \<lparr> cliente_id = 7,
       productos = [\<lparr> producto_id = 1, cantidad = 3 \<rparr>, \<lparr> producto_id = 2, cantidad = 2 \<rparr>],
       metodoPago = ''paypal'', direccion = ''Calle 1'', telefono = ''555'' \<rparr>"

definition demo_empty_store :: "int store" where
  "demo_empty_store = \<lparr> products = demo_products, orders = [], payments = [] \<rparr>"

definition demo_price_change :: "int product_data" where
  "demo_price_change =
     \<lparr> d_id = None, d_nombre = None, d_precio = Some 9, d_stock_disponible = None,
       d_activo = None \<rparr>"

definition demo_created :: "int order" where
  "demo_created =
     \<lparr> cliente_id = 7,
       productos = [\<lparr> producto_id = 1, cantidad = 3, precio_unitario = 5 \<rparr>,
                    \<lparr> producto_id = 2, cantidad = 2, precio_unitario = 7 \<rparr>],
       metodoPago = ''paypal'', direccion = ''Calle 1'', telefono = ''555'',
       numeroPedido = 1001, total = 29, estadoPedido = ORDER_PENDING,
       estadoPago = PAYMENT_PENDING, fecha = ''2024-01-01'' \<rparr>"

definition demo_created_store :: "int store" where
  "demo_created_store =
     \<lparr> products =
         [\<lparr> id_prod = 1, nombre = ''A'', precio = 5, stock_disponible = 7, activo = True \<rparr>,
          \<lparr> id_prod = 2, nombre = ''B'', precio = 7, stock_disponible = 3, activo = True \<rparr>],
       orders = [demo_created], payments = [] \<rparr>"

definition demo_failing_request :: "order_item order_data" where
  "demo_failing_request =
     \<lparr> cliente_id = 7,
       productos = [\<lparr> producto_id = 1, cantidad = 2 \<rparr>, \<lparr> producto_id = 2, cantidad = 999 \<rparr>],
       metodoPago = ''paypal'', direccion = ''Calle 1'', telefono = ''555'' \<rparr>"


section \<open>Properties of the products service\<close>

lemmas status_defs =
  ORDER_PENDING_def ORDER_PROCESSING_def ORDER_SHIPPED_def ORDER_DELIVERED_def
  ORDER_CANCELLED_def ORDER_STATUSES_def
  PAYMENT_PENDING_def PAYMENT_COMPLETED_def PAYMENT_FAILED_def PAYMENT_REFUNDED_def
  PAYMENT_STATUSES_def

subsection \<open>Searching a file\<close>

lemma findIndex_Some:
  "findIndex P xs = Some i \<Longrightarrow> i < length xs \<and> P (xs ! i)"
  by (induction xs arbitrary: i) (auto split: if_splits)

lemma find_findIndex: "find P xs = map_option (\<lambda>i. xs ! i) (findIndex P xs)"
  by (induction xs) (auto simp: option.map_comp comp_def)

lemma find_update_first:
  "findIndex P xs = Some i \<Longrightarrow> P y \<Longrightarrow> find P (xs[i := y]) = Some y"
  by (induction xs arbitrary: i) (auto split: if_splits)

lemma find_update_other:
  "\<not> Q (xs ! i) \<Longrightarrow> \<not> Q y \<Longrightarrow> i < length xs \<Longrightarrow> find Q (xs[i := y]) = find Q xs"
  by (induction xs arbitrary: i) (auto split: nat.splits simp: nth_Cons)

subsection \<open>Stock updates\<close>

lemma stockOf_Some_index:
  "stockOf ps pid = Some st \<Longrightarrow>
     \<exists>i. findIndex (\<lambda>p. id_prod p = pid) ps = Some i \<and> i < length ps \<and>
         id_prod (ps ! i) = pid \<and> stock_disponible (ps ! i) = st"
  by (cases "findIndex (\<lambda>p. id_prod p = pid) ps")
     (auto simp: stockOf_def find_findIndex dest: findIndex_Some)

lemma updateStock_not_found:
  "stockOf ps pid = None \<Longrightarrow> updateStock pid q ps = (Inl Producto_no_encontrado, ps)"
  by (simp add: stockOf_def updateStock_def find_findIndex split: option.splits)

lemma updateStock_insufficient:
  "stockOf ps pid = Some st \<Longrightarrow> q < 0 \<Longrightarrow> st < \<bar>q\<bar> \<Longrightarrow>
     updateStock pid q ps = (Inl Stock_insuficiente, ps)"
  by (auto simp: updateStock_def dest!: stockOf_Some_index)

lemma updateStock_ok:
  assumes "stockOf ps pid = Some st" and "\<not> (q < 0 \<and> st < \<bar>q\<bar>)"
  shows "fst (updateStock pid q ps) = Inr (st + q)"
    and "stockOf (snd (updateStock pid q ps)) pid = Some (st + q)"
    and "pid' \<noteq> pid \<Longrightarrow> stockOf (snd (updateStock pid q ps)) pid' = stockOf ps pid'"
proof -
  from assms(1) obtain i where i: "findIndex (\<lambda>p. id_prod p = pid) ps = Some i"
    "i < length ps" "id_prod (ps ! i) = pid" "stock_disponible (ps ! i) = st"
    by (blast dest: stockOf_Some_index)
  let ?p = "(ps ! i)\<lparr> stock_disponible := st + q \<rparr>"
  have u: "updateStock pid q ps = (Inr (st + q), ps[i := ?p])"
    using i assms(2) by (auto simp: updateStock_def Let_def)
  show "fst (updateStock pid q ps) = Inr (st + q)" by (simp add: u)
  show "stockOf (snd (updateStock pid q ps)) pid = Some (st + q)"
    using i by (simp add: u stockOf_def find_update_first)
  show "stockOf (snd (updateStock pid q ps)) pid' = stockOf ps pid'" if "pid' \<noteq> pid"
    using i that by (simp add: u stockOf_def find_update_other)
qed

text \<open>
  Claim C3. Reserving a quantity \<open>q\<close> of a product is \<open>updateStock\<close> with the delta \<open>- q\<close>.
  For a product of the file with stock \<open>st\<close>: when \<open>q \<le> st\<close> the call succeeds, answers
  the new stock and leaves the product with \<open>st - q\<close>; when \<open>q > st\<close> it fails with
  \<^verbatim>\<open>Stock insuficiente\<close> and the file is unchanged. A reservation quantity is not negative,
  and a reservation of nothing is only considered for a stock that is not negative.
\<close>

theorem updateStock_reserve:
  assumes "stockOf ps productId = Some st" and "0 \<le> q" and "q = 0 \<longrightarrow> 0 \<le> st"
  shows "(q \<le> st \<longrightarrow>
            fst (updateStock productId (- q) ps) = Inr (st - q) \<and>
            stockOf (snd (updateStock productId (- q) ps)) productId = Some (st - q)) \<and>
         (st < q \<longrightarrow>
            updateStock productId (- q) ps = (Inl Stock_insuficiente, ps))"
proof (intro conjI impI)
  assume "q \<le> st"
  then have ok: "\<not> (- q < 0 \<and> st < \<bar>- q\<bar>)" using assms(2) by auto
  show "fst (updateStock productId (- q) ps) = Inr (st - q)"
    using updateStock_ok(1)[OF assms(1) ok] by simp
  show "stockOf (snd (updateStock productId (- q) ps)) productId = Some (st - q)"
    using updateStock_ok(2)[OF assms(1) ok] by simp
next
  assume "st < q"
  then have "- q < 0" "st < \<bar>- q\<bar>" using assms(2,3) by auto
  then show "updateStock productId (- q) ps = (Inl Stock_insuficiente, ps)"
    by (rule updateStock_insufficient[OF assms(1)])
qed

lemma demo_stock:
  "stockOf demo_products 1 = Some 10" "stockOf demo_products 2 = Some 5"
  by (simp_all add: stockOf_def demo_products_def)

theorem updateStock_reserve_witness:
  "stockOf demo_products 1 = Some 10 \<and> (0::int) \<le> 3 \<and> (3::int) \<le> 10 \<and>
   fst (updateStock 1 (- 3) demo_products) = Inr 7 \<and>
   stockOf (snd (updateStock 1 (- 3) demo_products)) 1 = Some 7 \<and>
   stockOf demo_products 2 = Some 5 \<and> (0::int) \<le> 6 \<and> (5::int) < 6 \<and>
   updateStock 2 (- 6) demo_products = (Inl Stock_insuficiente, demo_products)"
  using updateStock_reserve[of demo_products 1 10 3]
        updateStock_reserve[of demo_products 2 5 6] demo_stock
  by simp

text \<open>
  Two reservations of the whole stock of a product, one after the other: the first succeeds
  and empties the stock, the second fails. This is the sequential case only; requests that
  interleave are outside this model.
\<close>

lemma updateStock_twice:
  assumes "stockOf ps productId = Some q" and "0 < q"
  shows "fst (updateStock productId (- q) ps) = Inr 0"
    and "updateStock productId (- q) (snd (updateStock productId (- q) ps)) =
           (Inl Stock_insuficiente, snd (updateStock productId (- q) ps))"
proof -
  have ok: "\<not> (- q < 0 \<and> q < \<bar>- q\<bar>)" using assms(2) by simp
  note u = updateStock_ok[OF assms(1) ok]
  show "fst (updateStock productId (- q) ps) = Inr 0" using u(1) by simp
  have "stockOf (snd (updateStock productId (- q) ps)) productId = Some 0" using u(2) by simp
  then show "updateStock productId (- q) (snd (updateStock productId (- q) ps)) =
           (Inl Stock_insuficiente, snd (updateStock productId (- q) ps))"
    using assms(2) by (intro updateStock_insufficient) auto
qed

section \<open>Properties of the orders service\<close>

subsection \<open>Looking an order up\<close>

lemma getOrderById_index:
  "getOrderById orderId os = Inr ord \<Longrightarrow>
     \<exists>i. findIndex (\<lambda>ord. numeroPedido ord = orderId) os = Some i \<and> i < length os \<and>
         os ! i = ord \<and> numeroPedido ord = orderId"
  by (cases "findIndex (\<lambda>ord. numeroPedido ord = orderId) os")
     (auto simp: getOrderById_def find_findIndex dest: findIndex_Some)

lemma getOrderById_update:
  assumes "findIndex (\<lambda>ord. numeroPedido ord = orderId) os = Some i"
    and "numeroPedido ord' = orderId"
  shows "getOrderById orderId (os[i := ord']) = Inr ord'"
  using assms by (simp add: getOrderById_def find_update_first)

lemma getOrderById_update_other:
  assumes "findIndex (\<lambda>ord. numeroPedido ord = orderId) os = Some i"
    and "numeroPedido ord' = orderId" and "orderId' \<noteq> orderId"
  shows "getOrderById orderId' (os[i := ord']) = getOrderById orderId' os"
proof -
  from assms(1) have "i < length os" "numeroPedido (os ! i) = orderId"
    by (auto dest: findIndex_Some)
  then show ?thesis using assms(2,3) by (simp add: getOrderById_def find_update_other)
qed

lemma demo_getOrderById:
  "getOrderById 1001 (orders (demo_store st)) = Inr (demo_order st)"
  by (simp add: getOrderById_def demo_store_def demo_order_def)

lemma demo_order_simps:
  "estadoPedido (demo_order st) = st"
  "estadoPago (demo_order st) = PAYMENT_PENDING"
  "productos (demo_order st) = [\<lparr> producto_id = 1, cantidad = 3, precio_unitario = 5 \<rparr>]"
  "(demo_order st)\<lparr> estadoPedido := st' \<rparr> = demo_order st'"
  "products (demo_store st) = demo_products"
  by (simp_all add: demo_order_def demo_store_def)

subsection \<open>Payment status\<close>

text \<open>
  Claim C8. For an order of the file, \<open>updatePaymentStatus orderId COMPLETED\<close> succeeds and
  stores the order with payment status COMPLETED; its fulfillment status becomes PROCESSING
  when it was PENDING and is unchanged otherwise. No other field of the order changes.
\<close>

theorem updatePaymentStatus_completed:
  assumes "getOrderById orderId os = Inr ord"
  shows "fst (updatePaymentStatus orderId PAYMENT_COMPLETED os) =
           Inr (ord\<lparr> estadoPago := PAYMENT_COMPLETED,
                     estadoPedido := (if estadoPedido ord = ORDER_PENDING
                                      then ORDER_PROCESSING else estadoPedido ord) \<rparr>) \<and>
         getOrderById orderId (snd (updatePaymentStatus orderId PAYMENT_COMPLETED os)) =
           Inr (ord\<lparr> estadoPago := PAYMENT_COMPLETED,
                     estadoPedido := (if estadoPedido ord = ORDER_PENDING
                                      then ORDER_PROCESSING else estadoPedido ord) \<rparr>)"
proof -
  from assms obtain i where i: "findIndex (\<lambda>ord. numeroPedido ord = orderId) os = Some i"
    "i < length os" "os ! i = ord" "numeroPedido ord = orderId"
    by (blast dest: getOrderById_index)
  let ?ord' = "ord\<lparr> estadoPago := PAYMENT_COMPLETED,
                     estadoPedido := (if estadoPedido ord = ORDER_PENDING
                                      then ORDER_PROCESSING else estadoPedido ord) \<rparr>"
  have valid: "PAYMENT_COMPLETED \<in> set PAYMENT_STATUSES"
    by (simp add: PAYMENT_STATUSES_def)
  have u: "updatePaymentStatus orderId PAYMENT_COMPLETED os = (Inr ?ord', os[i := ?ord'])"
    using i valid by (simp add: updatePaymentStatus_def Let_def)
  show ?thesis using i by (simp add: u getOrderById_update)
qed

theorem updatePaymentStatus_completed_witness:
  "getOrderById 1001 (snd (updatePaymentStatus 1001 PAYMENT_COMPLETED [demo_order ORDER_PENDING])) =
     Inr ((demo_order ORDER_PROCESSING)\<lparr> estadoPago := PAYMENT_COMPLETED \<rparr>) \<and>
   getOrderById 1001 (snd (updatePaymentStatus 1001 PAYMENT_COMPLETED [demo_order ORDER_SHIPPED])) =
     Inr ((demo_order ORDER_SHIPPED)\<lparr> estadoPago := PAYMENT_COMPLETED \<rparr>)"
  using updatePaymentStatus_completed[of 1001 "[demo_order ORDER_PENDING]" "demo_order ORDER_PENDING"]
        updatePaymentStatus_completed[of 1001 "[demo_order ORDER_SHIPPED]" "demo_order ORDER_SHIPPED"]
  by (simp add: getOrderById_def demo_order_def status_defs)

subsection \<open>Cancelling an order\<close>

lemma cancelOrder_rejected:
  assumes "getOrderById orderId (orders s) = Inr ord"
    and "estadoPedido ord = ORDER_SHIPPED \<or> estadoPedido ord = ORDER_DELIVERED"
  shows "cancelOrder orderId s = (Inl (No_se_puede_cancelar (estadoPedido ord)), s)"
proof -
  from assms(1) obtain i where i: "findIndex (\<lambda>ord. numeroPedido ord = orderId) (orders s) = Some i"
    "orders s ! i = ord"
    by (blast dest: getOrderById_index)
  show ?thesis using i assms(2) by (auto simp: cancelOrder_def Let_def)
qed

lemma cancelOrder_accepted:
  assumes "getOrderById orderId (orders s) = Inr ord"
    and "estadoPedido ord \<noteq> ORDER_SHIPPED" and "estadoPedido ord \<noteq> ORDER_DELIVERED"
  shows "\<exists>i. findIndex (\<lambda>ord. numeroPedido ord = orderId) (orders s) = Some i \<and>
     cancelOrder orderId s =
       (Inr (ord\<lparr> estadoPedido := ORDER_CANCELLED \<rparr>),
        s\<lparr> products := restoreStock (productos ord) (products s),
           orders := (orders s)[i := ord\<lparr> estadoPedido := ORDER_CANCELLED \<rparr>] \<rparr>)"
proof -
  from assms(1) obtain i where i: "findIndex (\<lambda>ord. numeroPedido ord = orderId) (orders s) = Some i"
    "i < length (orders s)" "orders s ! i = ord"
    by (blast dest: getOrderById_index)
  show ?thesis using i assms(2,3) by (simp add: cancelOrder_def Let_def)
qed

lemma stockOf_restoreStock:
  assumes "\<forall>l \<in> set lines. 0 \<le> cantidad l"
  shows "stockOf (restoreStock lines ps) pid =
           map_option (\<lambda>st. st + quantityOf lines pid) (stockOf ps pid)"
  using assms
proof (induction lines arbitrary: ps)
  case Nil
  then show ?case by (simp add: quantityOf_def option.map_ident)
next
  case (Cons l lines)
  let ?ps' = "snd (updateStock (producto_id l) (cantidad l) ps)"
  from Cons.prems have q: "0 \<le> cantidad l" and rest: "\<forall>l' \<in> set lines. 0 \<le> cantidad l'"
    by auto
  have IH: "stockOf (restoreStock lines ?ps') pid =
      map_option (\<lambda>st. st + quantityOf lines pid) (stockOf ?ps' pid)"
    using rest by (rule Cons.IH)
  show ?case
  proof (cases "stockOf ps (producto_id l)")
    case None
    then have "?ps' = ps" by (simp add: updateStock_not_found)
    then show ?thesis using IH None
      by (cases "pid = producto_id l") (auto simp: quantityOf_def)
  next
    case (Some st)
    have ok: "\<not> (cantidad l < 0 \<and> st < \<bar>cantidad l\<bar>)" using q by simp
    note us = updateStock_ok[OF Some ok]
    show ?thesis
    proof (cases "pid = producto_id l")
      case True
      then show ?thesis using IH us(2) Some by (simp add: quantityOf_def)
    next
      case False
      then show ?thesis using IH us(3)[of pid] by (simp add: quantityOf_def)
    qed
  qed
qed

lemma cancelOrder_effect:
  assumes "getOrderById orderId (orders s) = Inr ord"
    and "estadoPedido ord \<noteq> ORDER_SHIPPED" and "estadoPedido ord \<noteq> ORDER_DELIVERED"
    and "\<forall>l \<in> set (productos ord). 0 \<le> cantidad l"
  shows "fst (cancelOrder orderId s) = Inr (ord\<lparr> estadoPedido := ORDER_CANCELLED \<rparr>)"
    and "getOrderById orderId (orders (snd (cancelOrder orderId s))) =
           Inr (ord\<lparr> estadoPedido := ORDER_CANCELLED \<rparr>)"
    and "stockOf (products (snd (cancelOrder orderId s))) pid =
           map_option (\<lambda>st. st + quantityOf (productos ord) pid) (stockOf (products s) pid)"
proof -
  from cancelOrder_accepted[OF assms(1-3)] obtain i where
    i: "findIndex (\<lambda>ord. numeroPedido ord = orderId) (orders s) = Some i" and
    c: "cancelOrder orderId s =
       (Inr (ord\<lparr> estadoPedido := ORDER_CANCELLED \<rparr>),
        s\<lparr> products := restoreStock (productos ord) (products s),
           orders := (orders s)[i := ord\<lparr> estadoPedido := ORDER_CANCELLED \<rparr>] \<rparr>)"
    by blast
  from assms(1) have n: "numeroPedido ord = orderId" by (blast dest: getOrderById_index)
  show "fst (cancelOrder orderId s) = Inr (ord\<lparr> estadoPedido := ORDER_CANCELLED \<rparr>)"
    by (simp add: c)
  show "getOrderById orderId (orders (snd (cancelOrder orderId s))) =
           Inr (ord\<lparr> estadoPedido := ORDER_CANCELLED \<rparr>)"
    using i n by (simp add: c getOrderById_update)
  show "stockOf (products (snd (cancelOrder orderId s))) pid =
           map_option (\<lambda>st. st + quantityOf (productos ord) pid) (stockOf (products s) pid)"
    using assms(4) by (simp add: c stockOf_restoreStock)
qed

text \<open>
  Claim C5. Cancelling an order whose fulfillment status is SHIPPED or DELIVERED fails with
  \<^verbatim>\<open>No se puede cancelar una orden en estado ...\<close> and returns the store as it was: the
  statuses of the order and the stock of every product are unchanged.
\<close>

theorem cancelOrder_shipped_rejected:
  assumes "getOrderById orderId (orders s) = Inr ord"
    and "estadoPedido ord = ORDER_SHIPPED \<or> estadoPedido ord = ORDER_DELIVERED"
  shows "cancelOrder orderId s = (Inl (No_se_puede_cancelar (estadoPedido ord)), s)"
  using assms by (rule cancelOrder_rejected)

theorem cancelOrder_shipped_rejected_witness:
  "cancelOrder 1001 (demo_store ORDER_SHIPPED) =
     (Inl (No_se_puede_cancelar ORDER_SHIPPED), demo_store ORDER_SHIPPED) \<and>
   cancelOrder 1001 (demo_store ORDER_DELIVERED) =
     (Inl (No_se_puede_cancelar ORDER_DELIVERED), demo_store ORDER_DELIVERED)"
  using cancelOrder_shipped_rejected[OF demo_getOrderById, of ORDER_SHIPPED]
        cancelOrder_shipped_rejected[OF demo_getOrderById, of ORDER_DELIVERED]
  by (simp add: demo_order_simps)

text \<open>
  Claim C6. Cancelling an order whose fulfillment status is PENDING or PROCESSING succeeds,
  stores the order with fulfillment status CANCELLED, and adds to the stock of every product
  the quantity of the order's lines for it (a line whose product is not in the file changes
  nothing). The quantities of the lines are not negative, as the data model has them.
\<close>

theorem cancelOrder_restores_stock:
  assumes "getOrderById orderId (orders s) = Inr ord"
    and "estadoPedido ord = ORDER_PENDING \<or> estadoPedido ord = ORDER_PROCESSING"
    and "\<forall>l \<in> set (productos ord). 0 \<le> cantidad l"
  shows "fst (cancelOrder orderId s) = Inr (ord\<lparr> estadoPedido := ORDER_CANCELLED \<rparr>) \<and>
         getOrderById orderId (orders (snd (cancelOrder orderId s))) =
           Inr (ord\<lparr> estadoPedido := ORDER_CANCELLED \<rparr>) \<and>
         stockOf (products (snd (cancelOrder orderId s))) pid =
           map_option (\<lambda>st. st + quantityOf (productos ord) pid) (stockOf (products s) pid)"
proof -
  from assms(2) have ns: "estadoPedido ord \<noteq> ORDER_SHIPPED" "estadoPedido ord \<noteq> ORDER_DELIVERED"
    by (auto simp: status_defs)
  show ?thesis
    using cancelOrder_effect[OF assms(1) ns assms(3)] by simp
qed

theorem cancelOrder_restores_stock_witness:
  "fst (cancelOrder 1001 (demo_store ORDER_PENDING)) = Inr (demo_order ORDER_CANCELLED) \<and>
   getOrderById 1001 (orders (snd (cancelOrder 1001 (demo_store ORDER_PENDING)))) =
     Inr (demo_order ORDER_CANCELLED) \<and>
   stockOf (products (demo_store ORDER_PENDING)) 1 = Some 10 \<and>
   stockOf (products (snd (cancelOrder 1001 (demo_store ORDER_PENDING)))) 1 = Some 13 \<and>
   stockOf (products (snd (cancelOrder 1001 (demo_store ORDER_PROCESSING)))) 2 = Some 5"
  using cancelOrder_restores_stock[OF demo_getOrderById, of ORDER_PENDING 1]
        cancelOrder_restores_stock[OF demo_getOrderById, of ORDER_PROCESSING 2]
  by (simp add: demo_order_simps demo_stock quantityOf_def)

lemma cancelOrder_cancelled_orders:
  assumes "getOrderById orderId (orders s) = Inr ord"
    and "estadoPedido ord = ORDER_CANCELLED"
  shows "fst (cancelOrder orderId s) = Inr ord"
    and "orders (snd (cancelOrder orderId s)) = orders s"
    and "products (snd (cancelOrder orderId s)) = restoreStock (productos ord) (products s)"
proof -
  from assms(2) have ns: "estadoPedido ord \<noteq> ORDER_SHIPPED" "estadoPedido ord \<noteq> ORDER_DELIVERED"
    by (auto simp: status_defs)
  have same: "ord\<lparr> estadoPedido := ORDER_CANCELLED \<rparr> = ord"
    using assms(2)[symmetric] by simp
  from cancelOrder_accepted[OF assms(1) ns] obtain i where
    i: "findIndex (\<lambda>ord. numeroPedido ord = orderId) (orders s) = Some i" and
    c: "cancelOrder orderId s =
       (Inr (ord\<lparr> estadoPedido := ORDER_CANCELLED \<rparr>),
        s\<lparr> products := restoreStock (productos ord) (products s),
           orders := (orders s)[i := ord\<lparr> estadoPedido := ORDER_CANCELLED \<rparr>] \<rparr>)"
    by blast
  from assms(1) i have "orders s ! i = ord" by (auto dest: getOrderById_index)
  then have upd: "(orders s)[i := ord] = orders s" by (metis list_update_id)
  show "fst (cancelOrder orderId s) = Inr ord" by (simp add: c same)
  show "orders (snd (cancelOrder orderId s)) = orders s" by (simp add: c same upd)
  show "products (snd (cancelOrder orderId s)) = restoreStock (productos ord) (products s)"
    by (simp add: c)
qed

lemma cancelTimes_stock:
  assumes "getOrderById orderId (orders s) = Inr ord"
    and "estadoPedido ord = ORDER_CANCELLED"
    and "\<forall>l \<in> set (productos ord). 0 \<le> cantidad l"
  shows "stockOf (products (cancelTimes n orderId s)) pid =
           map_option (\<lambda>st. st + int n * quantityOf (productos ord) pid) (stockOf (products s) pid)"
  using assms
proof (induction n arbitrary: s)
  case 0
  then show ?case by (simp add: option.map_ident)
next
  case (Suc n)
  let ?s1 = "snd (cancelOrder orderId s)"
  note c = cancelOrder_cancelled_orders[OF Suc.prems(1,2)]
  have st1: "stockOf (products ?s1) p =
      map_option (\<lambda>st. st + quantityOf (productos ord) p) (stockOf (products s) p)" for p
    using Suc.prems(3) by (simp add: c(3) stockOf_restoreStock)
  have o1: "getOrderById orderId (orders ?s1) = Inr ord" using Suc.prems(1) by (simp add: c(2))
  have "stockOf (products (cancelTimes n orderId ?s1)) pid =
      map_option (\<lambda>st. st + int n * quantityOf (productos ord) pid) (stockOf (products ?s1) pid)"
    using o1 Suc.prems(2,3) by (rule Suc.IH)
  then show ?case
    by (simp add: st1 option.map_comp comp_def algebra_simps)
qed

text \<open>
  Claim C10. Cancelling an order that is already CANCELLED is not rejected: the call
  succeeds, the order stays CANCELLED (the orders file is rewritten with the same content),
  and the stock of every product grows again by the quantity of the order's lines for it.
  After \<open>n\<close> cancellations in a row the stock has grown by \<open>n\<close> times that quantity, so it
  grows without bound. The lines are as in claim C6.
\<close>

theorem cancelOrder_again:
  assumes "getOrderById orderId (orders s) = Inr ord"
    and "estadoPedido ord = ORDER_CANCELLED"
    and "\<forall>l \<in> set (productos ord). 0 \<le> cantidad l"
  shows "fst (cancelOrder orderId s) = Inr ord \<and>
         getOrderById orderId (orders (snd (cancelOrder orderId s))) = Inr ord \<and>
         stockOf (products (snd (cancelOrder orderId s))) pid =
           map_option (\<lambda>st. st + quantityOf (productos ord) pid) (stockOf (products s) pid) \<and>
         stockOf (products (cancelTimes n orderId s)) pid =
           map_option (\<lambda>st. st + int n * quantityOf (productos ord) pid) (stockOf (products s) pid)"
proof -
  note c = cancelOrder_cancelled_orders[OF assms(1,2)]
  have "stockOf (products (snd (cancelOrder orderId s))) pid =
           map_option (\<lambda>st. st + quantityOf (productos ord) pid) (stockOf (products s) pid)"
    using assms(3) by (simp add: c(3) stockOf_restoreStock)
  then show ?thesis
    using c(1,2) assms(1) cancelTimes_stock[OF assms] by simp
qed

theorem cancelOrder_again_witness:
  "fst (cancelOrder 1001 (demo_store ORDER_CANCELLED)) = Inr (demo_order ORDER_CANCELLED) \<and>
   stockOf (products (demo_store ORDER_CANCELLED)) 1 = Some 10 \<and>
   stockOf (products (snd (cancelOrder 1001 (demo_store ORDER_CANCELLED)))) 1 = Some 13 \<and>
   stockOf (products (cancelTimes 4 1001 (demo_store ORDER_CANCELLED))) 1 = Some 22"
  using cancelOrder_again[OF demo_getOrderById, of ORDER_CANCELLED 1 4]
  by (simp add: demo_order_simps demo_stock quantityOf_def)

section \<open>Properties of the payments service\<close>



text \<open>
  A gateway name that is not configured is refused first by both services, with no effect.
\<close>

lemma processPayment_invalid_gateway:
  assumes "gateway \<notin> set PAYMENT_GATEWAYS"
  shows "processPayment orderId gateway isSuccessful ms now s = (Inl Pasarela_no_valida, s)"
    and "processPayment_net orderId gateway fetched isSuccessful ms now newId ps =
           (Inl Pasarela_no_valida, ps, [])"
  using assms by (simp_all add: processPayment_def processPayment_net_def)




section \<open>Properties of order creation\<close>

lemma find_update_key:
  "i < length xs \<Longrightarrow> Q y = Q (xs ! i) \<Longrightarrow> f y = f (xs ! i) \<Longrightarrow>
     map_option f (find Q (xs[i := y])) = map_option f (find Q xs)"
  by (induction xs arbitrary: i) (auto split: nat.splits simp: nth_Cons)

lemma priceOf_updateStock:
  "priceOf (snd (updateStock pid q ps)) pid' = priceOf ps pid'"
proof (cases "findIndex (\<lambda>p. id_prod p = pid) ps")
  case None
  then show ?thesis by (simp add: updateStock_def)
next
  case (Some i)
  then have "i < length ps" by (auto dest: findIndex_Some)
  then show ?thesis using Some
    by (simp add: updateStock_def priceOf_def Let_def find_update_key)
qed

lemma getProductById_priceOf:
  "getProductById pid ps = Inr p \<Longrightarrow> priceOf ps pid = Some (precio p) \<and> id_prod p = pid"
  by (auto simp: getProductById_def priceOf_def split: option.splits dest: find_Some_iff[THEN iffD1])

lemma createOrder_loop_result:
  "createOrder_loop ar items tot lines ps = (Inr (tot', lines'), ps') \<Longrightarrow>
     \<exists>new. lines' = lines @ new \<and>
           tot' = foldl (\<lambda>acc l. num_plus ar acc (num_times ar (precio_unitario l) (cantidad l)))
                    tot new \<and>
           map producto_id new = map producto_id items \<and>
           map cantidad new = map cantidad items \<and>
           (\<forall>l \<in> set new. priceOf ps (producto_id l) = Some (precio_unitario l))"
proof (induction items arbitrary: tot lines ps)
  case Nil
  then show ?case by simp
next
  case (Cons item items)
  let ?step = "\<lambda>acc l. num_plus ar acc (num_times ar (precio_unitario l) (cantidad l))"
  from Cons.prems obtain producto where p: "getProductById (producto_id item) ps = Inr producto"
    by (auto split: sum.splits)
  note pp = getProductById_priceOf[OF p]
  let ?l = "\<lparr> producto_id = id_prod producto, cantidad = cantidad item,
              precio_unitario = precio producto \<rparr>"
  let ?ps1 = "snd (updateStock (id_prod producto) (- cantidad item) ps)"
  from Cons.prems p have rest:
    "createOrder_loop ar items (?step tot ?l) (lines @ [?l]) ?ps1 = (Inr (tot', lines'), ps')"
    by (auto split: if_splits sum.splits prod.splits)
  from Cons.IH[OF rest] obtain new where new:
    "lines' = (lines @ [?l]) @ new"
    "tot' = foldl ?step (?step tot ?l) new"
    "map producto_id new = map producto_id items"
    "map cantidad new = map cantidad items"
    "\<forall>l \<in> set new. priceOf ?ps1 (producto_id l) = Some (precio_unitario l)"
    by blast
  have "lines' = lines @ (?l # new)" using new(1) by simp
  moreover have "tot' = foldl ?step tot (?l # new)"
    using new(2) by simp
  moreover have "map producto_id (?l # new) = map producto_id (item # items)"
    using new(3) pp by simp
  moreover have "map cantidad (?l # new) = map cantidad (item # items)"
    using new(4) by simp
  moreover have "\<forall>l \<in> set (?l # new). priceOf ps (producto_id l) = Some (precio_unitario l)"
    using new(5) pp by (simp add: priceOf_updateStock)
  ultimately show ?case by blast
qed

lemma fold_max_ge: "(x::int) \<le> fold max xs x \<and> (\<forall>y \<in> set xs. y \<le> fold max xs x)"
proof (induction xs arbitrary: x)
  case Nil
  then show ?case by simp
next
  case (Cons a xs)
  have "max a x \<le> fold max xs (max a x)" "\<forall>y \<in> set xs. y \<le> fold max xs (max a x)"
    using Cons.IH[of "max a x"] by auto
  then show ?case by auto
qed

lemma nextId_fresh: "i \<in> set ids \<Longrightarrow> i < nextId first ids"
  using fold_max_ge by (cases ids) (auto simp: nextId_def intro: le_less_trans)

lemma find_append_new:
  "\<forall>x \<in> set xs. \<not> P x \<Longrightarrow> P y \<Longrightarrow> find P (xs @ [y]) = Some y"
  by (induction xs) auto

lemma createOrder_success:
  assumes "createOrder ar orderData now s = (Inr ord, s1)"
  shows "\<exists>tot lines ps'.
           createOrder_loop ar (productos orderData) (num_zero ar) [] (products s) =
             (Inr (tot, lines), ps') \<and>
           productos ord = lines \<and> total ord = tot \<and>
           numeroPedido ord = nextId 1001 (map numeroPedido (orders s)) \<and>
           estadoPedido ord = ORDER_PENDING \<and> estadoPago ord = PAYMENT_PENDING \<and>
           s1 = s\<lparr> products := ps', orders := orders s @ [ord] \<rparr>"
  using assms
  by (auto simp: createOrder_def Let_def split: prod.splits sum.splits)

lemma demo_createOrder:
  "createOrder demo_number demo_request ''2024-01-01'' demo_empty_store =
     (Inr demo_created, demo_created_store)"
  by (simp add: createOrder_def getProductById_def updateStock_def nextId_def Let_def
        demo_number_def demo_request_def demo_empty_store_def demo_products_def demo_created_def
        demo_created_store_def)

text \<open>
  Claim C4. The order that a successful \<open>createOrder\<close> returns and stores has a total equal
  to the sum over its lines of unit price times quantity, the sum being the one the program
  computes (\<open>sumLines\<close>: from \<^verbatim>\<open>0\<close>, line after line, with the program's product and sum),
  and the unit price of each line is the price its product had in the products file when the
  order was created. A later \<open>updateProduct\<close>, whatever it changes, writes the products file
  only: the orders file, and so the total and the unit prices of every order in it, is
  unchanged.
\<close>

theorem createOrder_total:
  assumes "createOrder ar orderData now s = (Inr ord, s1)"
  shows "total ord = sumLines ar (productos ord) \<and>
         (\<forall>l \<in> set (productos ord). priceOf (products s) (producto_id l) = Some (precio_unitario l)) \<and>
         getOrderById (numeroPedido ord) (orders s1) = Inr ord \<and>
         orders (snd (onProducts (updateProduct productId productData) s1)) = orders s1"
proof -
  from createOrder_success[OF assms] obtain tot lines ps' where
    loop: "createOrder_loop ar (productos orderData) (num_zero ar) [] (products s) =
             (Inr (tot, lines), ps')" and
    ord: "productos ord = lines" "total ord = tot"
      "numeroPedido ord = nextId 1001 (map numeroPedido (orders s))" and
    s1: "s1 = s\<lparr> products := ps', orders := orders s @ [ord] \<rparr>"
    by blast
  from createOrder_loop_result[OF loop] have
    t: "tot = sumLines ar lines" and
    pr: "\<forall>l \<in> set lines. priceOf (products s) (producto_id l) = Some (precio_unitario l)"
    by (auto simp: sumLines_def)
  have fresh: "\<forall>x \<in> set (orders s). numeroPedido x \<noteq> numeroPedido ord"
    using nextId_fresh[of _ "map numeroPedido (orders s)" 1001] ord(3) by fastforce
  have stored: "getOrderById (numeroPedido ord) (orders s1) = Inr ord"
    using fresh by (simp add: s1 getOrderById_def find_append_new)
  have frame: "orders (snd (onProducts (updateProduct productId productData) s1)) = orders s1"
    by (simp add: onProducts_def split: prod.splits)
  show ?thesis using t pr ord stored frame by simp
qed

theorem createOrder_total_witness:
  "createOrder demo_number demo_request ''2024-01-01'' demo_empty_store =
     (Inr demo_created, demo_created_store) \<and>
   total demo_created = 29 \<and>
   sumLines demo_number (productos demo_created) = 29 \<and>
   getOrderById 1001 (orders demo_created_store) = Inr demo_created \<and>
   priceOf (products (snd (onProducts (updateProduct 1 demo_price_change) demo_created_store))) 1
     = Some 9 \<and>
   getOrderById 1001 (orders (snd (onProducts (updateProduct 1 demo_price_change) demo_created_store)))
     = Inr demo_created"
proof -
  have pr: "priceOf (products (snd (onProducts (updateProduct 1 demo_price_change) demo_created_store))) 1
     = Some 9"
    by (simp add: onProducts_def updateProduct_def spread_def priceOf_def Let_def
          demo_created_store_def demo_price_change_def)
  have n: "numeroPedido demo_created = 1001" "total demo_created = 29"
    by (simp_all add: demo_created_def)
  show ?thesis
    using createOrder_total[OF demo_createOrder, of 1 demo_price_change] demo_createOrder pr n
    by simp
qed

text \<open>
  Claim C1 says that a creation failing at item \<open>k\<close> leaves the stock of the earlier items
  as it was. The loop of \<open>createOrder\<close> reserves each item as soon as it is validated and
  returns at the first failure without releasing: for the request of two units of A and 999
  of B, with ten of A and five of B in stock, the call fails for B and A is left with eight.
\<close>

theorem createOrder_keeps_earlier_reservations:
  "stockOf (products demo_empty_store) 1 = Some 10 \<and>
   stockOf (products demo_empty_store) 2 = Some 5 \<and>
   fst (createOrder demo_number demo_failing_request ''2024-01-01'' demo_empty_store) =
     Inl (Stock_insuficiente_para ''B'' 5) \<and>
   stockOf (products
       (snd (createOrder demo_number demo_failing_request ''2024-01-01'' demo_empty_store))) 1 =
     Some 8 \<and>
   orders (snd (createOrder demo_number demo_failing_request ''2024-01-01'' demo_empty_store)) = []"
  by (simp add: createOrder_def getProductById_def updateStock_def stockOf_def Let_def
        demo_number_def demo_failing_request_def demo_empty_store_def demo_products_def)

text \<open>
  The SQLite variant validates all the items before it reserves any: a failing lookup or
  stock check returns the store untouched, also for the request above.
\<close>

lemma createOrder_sql_validation_failure:
  "createOrder_sql_validate ar (productos orderData) (num_zero ar) [] (products s) = Inl e \<Longrightarrow>
     createOrder_sql ar orderData newId now s = (Inl e, s)"
  by (simp add: createOrder_sql_def)

lemma createOrder_sql_demo:
  "createOrder_sql demo_number demo_failing_request 1001 ''2024-01-01'' demo_empty_store =
     (Inl (Stock_insuficiente_para ''B'' 5), demo_empty_store)"
  by (simp add: createOrder_sql_def getProductById_def
        demo_number_def demo_failing_request_def demo_empty_store_def demo_products_def)

section \<open>Transitions of the fulfillment status\<close>
























section \<open>The two implementations of cancellation\<close>

text \<open>
  On an order whose lines have quantities that are not negative and products that are in the
  file, no release fails and the SQLite variant of \<open>cancelOrder\<close> returns what the monolith
  returns, so what is proved above about cancellation holds for it on such orders.
\<close>

lemma stockOf_updateStock_None:
  "stockOf (snd (updateStock pid q ps)) pid' = None \<longleftrightarrow> stockOf ps pid' = None"
proof (cases "stockOf ps pid")
  case None
  then show ?thesis by (simp add: updateStock_not_found)
next
  case (Some st)
  show ?thesis
  proof (cases "q < 0 \<and> st < \<bar>q\<bar>")
    case True
    then have "updateStock pid q ps = (Inl Stock_insuficiente, ps)"
      using updateStock_insufficient[OF Some] by blast
    then show ?thesis by simp
  next
    case False
    show ?thesis
      using updateStock_ok(2)[OF Some False] updateStock_ok(3)[OF Some False, of pid'] Some
      by (cases "pid' = pid") simp_all
  qed
qed

lemma cancelOrder_sql_restore_ok:
  assumes "\<forall>l \<in> set lines. 0 \<le> cantidad l \<and> stockOf ps (producto_id l) \<noteq> None"
  shows "cancelOrder_sql_restore lines ps = (Inr (), restoreStock lines ps)"
  using assms
proof (induction lines arbitrary: ps)
  case Nil
  then show ?case by simp
next
  case (Cons l lines)
  from Cons.prems obtain st where st: "stockOf ps (producto_id l) = Some st" and q: "0 \<le> cantidad l"
    by auto
  have ok: "\<not> (cantidad l < 0 \<and> st < \<bar>cantidad l\<bar>)" using q by simp
  obtain r ps1 where u: "updateStock (producto_id l) (cantidad l) ps = (r, ps1)"
    by (cases "updateStock (producto_id l) (cantidad l) ps")
  have r: "r = Inr (st + cantidad l)" using updateStock_ok(1)[OF st ok] u by simp
  have ps1: "ps1 = snd (updateStock (producto_id l) (cantidad l) ps)" using u by simp
  have "\<forall>l' \<in> set lines. 0 \<le> cantidad l' \<and> stockOf ps1 (producto_id l') \<noteq> None"
    using Cons.prems by (simp add: ps1 stockOf_updateStock_None)
  then have "cancelOrder_sql_restore lines ps1 = (Inr (), restoreStock lines ps1)"
    by (rule Cons.IH)
  then show ?case by (simp add: u r)
qed

lemma cancelOrder_sql_agrees:
  assumes "getOrderById orderId (orders s) = Inr ord"
    and "\<forall>l \<in> set (productos ord). 0 \<le> cantidad l \<and> stockOf (products s) (producto_id l) \<noteq> None"
  shows "cancelOrder_sql orderId s = cancelOrder orderId s"
proof -
  from assms(1) obtain i where i: "findIndex (\<lambda>ord. numeroPedido ord = orderId) (orders s) = Some i"
    "orders s ! i = ord"
    by (blast dest: getOrderById_index)
  show ?thesis
    using i cancelOrder_sql_restore_ok[OF assms(2)]
    by (simp add: cancelOrder_sql_def cancelOrder_def Let_def)
qed

end
